theory Spec2Isabelle
  imports Main
begin

section \<open>Python exceptions, logging and observable events\<close>

text \<open>
  Exceptions are values. An exception carries its class, its \<open>args\<close> tuple and the
  text \<open>str(err)\<close> gives. \<open>NonException\<close> stands for the classes that derive from
  \<open>BaseException\<close> but not from \<open>Exception\<close> (a clause \<open>except Exception\<close> lets them
  pass); every other class derives from \<open>Exception\<close>. \<open>BleakError\<close> stands for that class
  and its subclasses.
\<close>

datatype exc_class =
    BleakError
  | AirthingsError
  | AirthingsDeviceUpdateError
  | AbortFlow
  | UnboundLocalError
  | IndexError
  | KeyError
  | OtherException string
  | NonException string

datatype py_exc = PyExc (exc_cls: exc_class) (exc_args: "string list") (exc_str: string)

definition raise_msg :: "exc_class \<Rightarrow> string \<Rightarrow> py_exc" where
  "raise_msg c msg = PyExc c [msg] msg"

fun is_Exception :: "py_exc \<Rightarrow> bool" where
  "is_Exception (PyExc (NonException _) _ _) = False"
| "is_Exception _ = True"

definition is_BleakError :: "py_exc \<Rightarrow> bool" where
  "is_BleakError e = (exc_cls e = BleakError)"

definition is_AirthingsDeviceUpdateError :: "py_exc \<Rightarrow> bool" where
  "is_AirthingsDeviceUpdateError e = (exc_cls e = AirthingsDeviceUpdateError)"

subsection \<open>The BLE data model\<close>

record firmware_info =
  current_firmware :: string
  needed_firmware :: string
  need_fw_upgrade :: bool

text \<open>
  The SDK's \<open>AirthingsDevice\<close>, as far as the flow reads it: the result of its method
  \<open>friendly_name()\<close>, its \<open>identifier\<close> (a \<open>str\<close>, empty when the device has none) and
  its firmware record.
\<close>

record airthings_device =
  friendly_name :: string
  device_identifier :: string
  firmware :: firmware_info

datatype ble_device = BLEDevice string

datatype airthings_bluetooth_device_data = AirthingsBluetoothDeviceData

record bluetooth_service_info =
  name :: string
  address :: string
  manufacturer_data :: "(int \<times> nat list) list"
  service_uuids :: "string list"

record device_and_data =
  device :: airthings_device
  data :: airthings_bluetooth_device_data

record discovery =
  disc_name :: string
  discovery_info :: bluetooth_service_info
  disc_device :: airthings_device

datatype log_level = Debug | Warning | Error

datatype log_arg =
    LStr string
  | LBool bool
  | LExc py_exc
  | LInfo bluetooth_service_info

text \<open>
  What a step does besides returning: the log records it writes and the calls it makes
  to the Bluetooth adapter (\<open>async_ble_device_from_address\<close>) and to the BLE SDK
  (\<open>update_device\<close>), in order.
\<close>

datatype event =
    Log log_level string "log_arg list"
  | CallBleDeviceFromAddress string
  | CallUpdateDevice ble_device

fun is_fetch_event :: "event \<Rightarrow> bool" where
  "is_fetch_event (Log _ _ _) = False"
| "is_fetch_event (CallBleDeviceFromAddress _) = True"
| "is_fetch_event (CallUpdateDevice _) = True"

subsection \<open>The host and the flow instance\<close>

text \<open>
  The host as a flow step sees it through \<open>self.hass\<close>: the Bluetooth adapter's
  resolution of an address to a connectable handle, the BLE SDK's \<open>update_device\<close>
  (a device or a raised exception), the advertisements currently visible
  (\<open>async_discovered_service_info\<close>) and the unique ids of the configured entries
  (\<open>_async_current_ids\<close>).
\<close>

record hass =
  async_ble_device_from_address :: "string \<Rightarrow> ble_device option"
  update_device :: "ble_device \<Rightarrow> py_exc + airthings_device"
  async_discovered_service_info :: "bluetooth_service_info list"
  async_current_ids :: "string list"

text \<open>
  One flow instance: \<open>self.unique_id\<close>, \<open>self.context["title_placeholders"]\<close> (absent
  until a step stores it), \<open>self._discovered_device\<close>, \<open>self._discovered_devices\<close> (a
  dict, kept in insertion order) and the events emitted so far.
\<close>

record flow =
  unique_id :: "string option"
  title_placeholders :: "(string \<times> string) list option"
  discovered_device :: "discovery option"
  discovered_devices :: "(string \<times> discovery) list"
  events :: "event list"

definition init_flow :: flow where
  "init_flow = \<lparr>unique_id = None, title_placeholders = None, discovered_device = None,
     discovered_devices = [], events = []\<rparr>"

definition emit :: "event \<Rightarrow> flow \<Rightarrow> flow" where
  "emit ev fl = fl\<lparr>events := events fl @ [ev]\<rparr>"

text \<open>
  What a step returns: \<open>async_abort(reason)\<close>, \<open>async_create_entry(title, data={})\<close>, or
  \<open>async_show_form\<close> with its step id, its \<open>description_placeholders\<close> and the choices
  of its \<open>data_schema\<close> (each \<open>None\<close> when the call does not pass it).
\<close>

datatype flow_result =
    Abort string
  | CreateEntry string
  | ShowForm string "(string \<times> string) list option" "(string \<times> string) list option"

definition key_error :: "string \<Rightarrow> py_exc" where
  "key_error k = PyExc KeyError [k] (CHR 0x27 # k @ [CHR 0x27])"

text \<open>
  Reading a local variable that no assignment has bound (the message is the one of
  Python 3.11 and later).
\<close>

definition unbound_local :: "string \<Rightarrow> py_exc" where
  "unbound_local v =
    raise_msg UnboundLocalError
      (''cannot access local variable '' @ CHR 0x27 # v @ CHR 0x27 #
       '' where it is not associated with a value'')"

text \<open>\<open>d[k] = v\<close> on a dict in insertion order.\<close>

fun dict_set :: "'k \<Rightarrow> 'v \<Rightarrow> ('k \<times> 'v) list \<Rightarrow> ('k \<times> 'v) list" where
  "dict_set k v [] = [(k, v)]"
| "dict_set k v ((k', v') # kvs) =
     (if k' = k then (k, v) # kvs else (k', v') # dict_set k v kvs)"

text \<open>\<open>needle in hay\<close> on strings: \<open>needle\<close> occurs as a contiguous substring.\<close>

fun starts_with :: "string \<Rightarrow> string \<Rightarrow> bool" where
  "starts_with [] _ = True"
| "starts_with (_ # _) [] = False"
| "starts_with (c # cs) (d # ds) = (c = d \<and> starts_with cs ds)"

fun str_contains :: "string \<Rightarrow> string \<Rightarrow> bool" where
  "str_contains needle [] = (needle = [])"
| "str_contains needle (c # cs) = (starts_with needle (c # cs) \<or> str_contains needle cs)"

section \<open>config_flow.py\<close>

definition MFCT_ID :: int where
  "MFCT_ID = 820"

definition SERVICE_UUIDS :: "string list" where
  "SERVICE_UUIDS =
    [''b42e1f6e-ade7-11e4-89d3-123b93f75cba'',
     ''b42e4a8e-ade7-11e4-89d3-123b93f75cba'',
     ''b42e1c08-ade7-11e4-89d3-123b93f75cba'',
     ''b42e3882-ade7-11e4-89d3-123b93f75cba'']"

definition CONF_ADDRESS :: string where
  "CONF_ADDRESS = ''address''"

text \<open>\<open>get_name\<close>: an empty identifier is falsy, so the suffix is added for a non-empty one.\<close>

definition get_name :: "device_and_data \<Rightarrow> string" where
  "get_name dev =
    (let nm = friendly_name (device dev) in
     if device_identifier (device dev) \<noteq> [] then nm @ '' ('' @ device_identifier (device dev) @ '')''
     else nm)"

text \<open>
  The \<open>try\<close> statement of \<open>_get_device_data\<close>. Its outcome is an exception leaving the
  statement (\<open>Inl\<close>), or the local variable \<open>device\<close> after it: \<open>Some\<close> when the call
  returned and the assignment ran, \<open>None\<close> (unbound) when the last handler ended without
  raising. In that handler \<open>err.args[0]\<close> raises \<open>IndexError\<close> on an empty \<open>args\<close>.
\<close>

definition try_update_device ::
  "hass \<Rightarrow> bluetooth_service_info \<Rightarrow> ble_device \<Rightarrow> flow \<Rightarrow> (py_exc + airthings_device option) \<times> flow" where
  "try_update_device h di bd fl =
    (let fl1 = emit (CallUpdateDevice bd) fl in
     case update_device h bd of
       Inr d \<Rightarrow> (Inr (Some d), fl1)
     | Inl err \<Rightarrow>
         if is_BleakError err then
           (Inl (raise_msg AirthingsDeviceUpdateError ''Failed getting device data''),
            emit (Log Error ''Error connecting to and getting data from %s: %s''
                    [LStr (address di), LExc err]) fl1)
         else if is_Exception err then
           (let fl2 = emit (Log Error ''Unknown error occurred from %s: %s''
                        [LStr (address di), LExc err]) fl1 in
            case exc_args err of
              [] \<Rightarrow> (Inl (raise_msg IndexError ''tuple index out of range''), fl2)
            | a # _ \<Rightarrow> (Inr None, emit (Log Error ''There was an error: %s'' [LStr a]) fl2))
         else (Inl err, fl1))"

text \<open>
  \<open>_get_device_data\<close>. The final \<open>return DeviceAndData(device=device, data=airthings)\<close>
  reads the local \<open>device\<close>; reading it unbound raises \<open>UnboundLocalError\<close>.
\<close>

definition get_device_data ::
  "hass \<Rightarrow> bluetooth_service_info \<Rightarrow> flow \<Rightarrow> (py_exc + device_and_data) \<times> flow" where
  "get_device_data h di fl =
    (let fl1 = emit (CallBleDeviceFromAddress (address di)) fl in
     case async_ble_device_from_address h (address di) of
       None \<Rightarrow>
         (Inl (raise_msg AirthingsDeviceUpdateError ''No ble_device''),
          emit (Log Debug ''no ble_device in _get_device_data'' []) fl1)
     | Some bd \<Rightarrow>
         (let airthings = AirthingsBluetoothDeviceData in
          case try_update_device h di bd fl1 of
            (Inl e, fl2) \<Rightarrow> (Inl e, fl2)
          | (Inr None, fl2) \<Rightarrow>
              (Inl (unbound_local ''device''), fl2)
          | (Inr (Some d), fl2) \<Rightarrow> (Inr \<lparr>device = d, data = airthings\<rparr>, fl2)))"

subsection \<open>The host's flow helpers\<close>

text \<open>
  Modelled from the spec: \<open>ConfigFlow.async_set_unique_id\<close> of the host framework
  (\<open>homeassistant/config_entries.py\<close>, not among the sources). It stores the flow's unique
  identifier.
\<close>

definition async_set_unique_id :: "string \<Rightarrow> flow \<Rightarrow> flow" where
  "async_set_unique_id uid fl = fl\<lparr>unique_id := Some uid\<rparr>"

text \<open>
  Modelled from the spec: \<open>ConfigFlow._abort_if_unique_id_configured\<close> of the host
  framework (not among the sources). The spec: the flow aborts with \<open>already_configured\<close>
  if the device's unique identifier is already configured. The method is called as a
  statement, so it aborts by raising; \<open>Some\<close> is the exception raised.
\<close>

definition abort_if_unique_id_configured :: "hass \<Rightarrow> flow \<Rightarrow> py_exc option" where
  "abort_if_unique_id_configured h fl =
    (case unique_id fl of
       None \<Rightarrow> None
     | Some uid \<Rightarrow>
         if uid \<in> set (async_current_ids h) then Some (raise_msg AbortFlow ''already_configured'')
         else None)"

text \<open>
  Modelled from the spec: the host's flow manager (not among the sources), which calls a
  step handler and turns the abort raised inside it into the abort result with the same
  reason; any other outcome is passed on.
\<close>

definition flow_manager_result :: "py_exc + flow_result \<Rightarrow> py_exc + flow_result" where
  "flow_manager_result r =
    (case r of
       Inl e \<Rightarrow> if exc_cls e = AbortFlow then Inr (Abort (exc_str e)) else Inl e
     | Inr x \<Rightarrow> Inr x)"

subsection \<open>The automatic path\<close>

definition async_step_bluetooth_confirm ::
  "flow \<Rightarrow> (string \<times> string) list option \<Rightarrow> (py_exc + flow_result) \<times> flow" where
  "async_step_bluetooth_confirm fl user_input =
    (let fl1 = emit (Log Debug ''async_step_bluetooth_confirm'' []) fl in
     case user_input of
       Some ui \<Rightarrow>
         (case title_placeholders fl1 of
            None \<Rightarrow> (Inl (key_error ''title_placeholders''), fl1)
          | Some tp \<Rightarrow>
              (case map_of tp ''name'' of
                 None \<Rightarrow> (Inl (key_error ''name''), fl1)
               | Some t \<Rightarrow> (Inr (CreateEntry t), fl1)))
     | None \<Rightarrow>
         (case title_placeholders fl1 of
            None \<Rightarrow> (Inl (key_error ''title_placeholders''), fl1)
          | Some tp \<Rightarrow> (Inr (ShowForm ''bluetooth_confirm'' (Some tp) None), fl1)))"

definition async_step_bluetooth ::
  "hass \<Rightarrow> bluetooth_service_info \<Rightarrow> flow \<Rightarrow> (py_exc + flow_result) \<times> flow" where
  "async_step_bluetooth h di fl =
    (let fl1 = emit (Log Debug ''async_step_bluetooth'' []) fl;
         fl2 = emit (Log Debug ''Discovered BT device: %s'' [LInfo di]) fl1;
         fl3 = async_set_unique_id (address di) fl2
     in case abort_if_unique_id_configured h fl3 of
          Some e \<Rightarrow> (Inl e, fl3)
        | None \<Rightarrow>
            (case get_device_data h di fl3 of
               (Inl e, fl4) \<Rightarrow>
                 if is_AirthingsDeviceUpdateError e then (Inr (Abort ''cannot_connect''), fl4)
                 else if is_Exception e then (Inr (Abort ''unknown''), fl4)
                 else (Inl e, fl4)
             | (Inr dev, fl4) \<Rightarrow>
                 (let nm = get_name dev;
                      fl5 = fl4\<lparr>title_placeholders := Some [(''name'', nm)]\<rparr>;
                      fl6 = fl5\<lparr>discovered_device :=
                              Some \<lparr>disc_name = nm, discovery_info = di, disc_device = device dev\<rparr>\<rparr>
                  in async_step_bluetooth_confirm fl6 None)))"

subsection \<open>The manual path\<close>

text \<open>
  The \<open>for\<close> loop of \<open>async_step_user\<close> over the visible advertisements. \<open>None\<close>: the loop
  ran to its end; \<open>Some\<close>: a \<open>return\<close> or an exception left it.
\<close>

fun scan_loop ::
  "hass \<Rightarrow> string list \<Rightarrow> bluetooth_service_info list \<Rightarrow> flow
     \<Rightarrow> (py_exc + flow_result) option \<times> flow" where
  "scan_loop h current_addresses [] fl = (None, fl)"
| "scan_loop h current_addresses (di # rest) fl =
    (if address di \<in> set current_addresses \<or> map_of (discovered_devices fl) (address di) \<noteq> None
       then scan_loop h current_addresses rest fl
     else if map_of (manufacturer_data di) MFCT_ID = None
       then scan_loop h current_addresses rest fl
     else if \<not> list_ex (\<lambda>uuid. uuid \<in> set SERVICE_UUIDS) (service_uuids di)
              \<and> \<not> str_contains ''Tern'' (name di)
       then scan_loop h current_addresses rest (emit (Log Warning ''Skipping %s'' [LStr (name di)]) fl)
     else
       (case get_device_data h di (emit (Log Debug ''Continuing with %s'' [LStr (name di)]) fl) of
          (Inl e, fl2) \<Rightarrow>
            if is_AirthingsDeviceUpdateError e then (Some (Inr (Abort ''cannot_connect'')), fl2)
            else if is_Exception e then (Some (Inr (Abort ''unknown'')), fl2)
            else (Some (Inl e), fl2)
        | (Inr dev, fl2) \<Rightarrow>
            scan_loop h current_addresses rest
              (fl2\<lparr>discovered_devices :=
                 dict_set (address di)
                   \<lparr>disc_name = get_name dev, discovery_info = di, disc_device = device dev\<rparr>
                   (discovered_devices fl2)\<rparr>)))"

definition async_step_user ::
  "hass \<Rightarrow> flow \<Rightarrow> (string \<times> string) list option \<Rightarrow> (py_exc + flow_result) \<times> flow" where
  "async_step_user h fl user_input =
    (let fl0 = emit (Log Debug ''async_step_user'' []) fl in
     case user_input of
       Some ui \<Rightarrow>
         (case map_of ui CONF_ADDRESS of
            None \<Rightarrow> (Inl (key_error CONF_ADDRESS), fl0)
          | Some addr \<Rightarrow>
              (let fl1 = async_set_unique_id addr fl0 in
               case abort_if_unique_id_configured h fl1 of
                 Some e \<Rightarrow> (Inl e, fl1)
               | None \<Rightarrow>
                   (case map_of (discovered_devices fl1) addr of
                      None \<Rightarrow> (Inl (key_error addr), fl1)
                    | Some disc \<Rightarrow>
                        (let fw = firmware (disc_device disc);
                             fl2 = emit (Log Debug ''FW: %s - %s - %s''
                                      [LStr (current_firmware fw), LStr (needed_firmware fw),
                                       LBool (need_fw_upgrade fw)]) fl1
                         in if need_fw_upgrade fw
                              then (Inr (Abort ''firmware_upgrade_required''), fl2)
                            else
                              (Inr (CreateEntry (disc_name disc)),
                               fl2\<lparr>title_placeholders := Some [(''name'', disc_name disc)],
                                   discovered_device := Some disc\<rparr>)))))
     | None \<Rightarrow>
         (case scan_loop h (async_current_ids h) (async_discovered_service_info h) fl0 of
            (Some r, fl1) \<Rightarrow> (r, fl1)
          | (None, fl1) \<Rightarrow>
              if discovered_devices fl1 = [] then (Inr (Abort ''no_devices_found''), fl1)
              else
                (Inr (ShowForm ''user'' None
                        (Some (map (\<lambda>(a, d). (a, disc_name d)) (discovered_devices fl1)))),
                 fl1)))"

text \<open>
  Modelled from the spec: the host driving the automatic path (its flow manager, not among
  the sources): the discovery step runs on the advertisement, and when it shows the
  \<open>bluetooth_confirm\<close> form the user's submission is given to the confirmation step.
\<close>

definition bluetooth_path ::
  "hass \<Rightarrow> bluetooth_service_info \<Rightarrow> (string \<times> string) list \<Rightarrow> flow
     \<Rightarrow> (py_exc + flow_result) \<times> flow" where
  "bluetooth_path h di submitted fl =
    (case async_step_bluetooth h di fl of
       (Inr (ShowForm step_id ph sch), fl1) \<Rightarrow>
         if step_id = ''bluetooth_confirm''
           then (case async_step_bluetooth_confirm fl1 (Some submitted) of
                   (r, fl2) \<Rightarrow> (flow_manager_result r, fl2))
         else (Inr (ShowForm step_id ph sch), fl1)
     | (r, fl1) \<Rightarrow> (flow_manager_result r, fl1))"

section \<open>airthings/__init__.py\<close>

text \<open>
  What \<open>_update_method\<close> raises: \<open>UpdateFailed\<close> with its message and its cause (\<open>from err\<close>),
  or an exception of the SDK call that no handler caught.
\<close>

datatype update_error =
    UpdateFailed string py_exc
  | Propagated py_exc

text \<open>
  \<open>_update_method\<close>, given what the call \<open>airthings.update_devices()\<close> does: it returns the
  device mapping or raises.
\<close>

definition update_method :: "py_exc + 'd \<Rightarrow> update_error + 'd" where
  "update_method update_devices =
    (case update_devices of
       Inr devices \<Rightarrow> Inr devices
     | Inl err \<Rightarrow>
         if exc_cls err = AirthingsError
           then Inl (UpdateFailed (''Unable to fetch data: '' @ exc_str err) err)
         else Inl (Propagated err))"

fun is_UpdateFailed :: "update_error + 'd \<Rightarrow> bool" where
  "is_UpdateFailed (Inl (UpdateFailed _ _)) = True"
| "is_UpdateFailed _ = False"

fun raises_AirthingsError :: "py_exc + 'd \<Rightarrow> bool" where
  "raises_AirthingsError (Inl err) = (exc_cls err = AirthingsError)"
| "raises_AirthingsError (Inr _) = False"

section \<open>airthings/sensor.py\<close>

text \<open>
  The cloud SDK's reading bundle: a device with its serial number, name, model and its
  list of sensors, each a type and a value (\<open>None\<close> is Python's \<open>None\<close>).
\<close>

record 'v airthings_sensor =
  sensor_type :: string
  sensor_value :: "'v option"

record 'v cloud_device =
  serial_number :: string
  device_name :: string
  device_type :: string
  sensors :: "'v airthings_sensor list"

datatype sensor_device_class =
    TEMPERATURE | HUMIDITY | PRESSURE | BATTERY | CO2 | VOLATILE_ORGANIC_COMPOUNDS_PARTS
  | SIGNAL_STRENGTH | PM1 | PM25

datatype unit_of_measurement =
    BQ_PER_CUBIC_METER | CELSIUS | PERCENTAGE | MBAR | CONCENTRATION_PARTS_PER_MILLION
  | CONCENTRATION_PARTS_PER_BILLION | SIGNAL_STRENGTH_DECIBELS
  | CONCENTRATION_MICROGRAMS_PER_CUBIC_METER

datatype entity_category = DIAGNOSTIC

record sensor_entity_description =
  key :: string
  device_class :: "sensor_device_class option"
  native_unit_of_measurement :: "unit_of_measurement option"
  translation_key :: "string option"
  entity_category :: "entity_category option"
  entity_registry_enabled_default :: bool

text \<open>A description with the given key and the defaults of \<open>SensorEntityDescription\<close>.\<close>

definition SensorEntityDescription :: "string \<Rightarrow> sensor_entity_description" where
  "SensorEntityDescription k =
    \<lparr>key = k, device_class = None, native_unit_of_measurement = None, translation_key = None,
     entity_category = None, entity_registry_enabled_default = True\<rparr>"

definition SENSORS :: "(string \<times> sensor_entity_description) list" where
  "SENSORS =
    [(''radonShortTermAvg'', (SensorEntityDescription ''radonShortTermAvg'')
        \<lparr>native_unit_of_measurement := Some BQ_PER_CUBIC_METER, translation_key := Some ''radon''\<rparr>),
     (''temp'', (SensorEntityDescription ''temp'')
        \<lparr>device_class := Some TEMPERATURE, native_unit_of_measurement := Some CELSIUS\<rparr>),
     (''humidity'', (SensorEntityDescription ''humidity'')
        \<lparr>device_class := Some HUMIDITY, native_unit_of_measurement := Some PERCENTAGE\<rparr>),
     (''pressure'', (SensorEntityDescription ''pressure'')
        \<lparr>device_class := Some PRESSURE, native_unit_of_measurement := Some MBAR\<rparr>),
     (''battery'', (SensorEntityDescription ''battery'')
        \<lparr>device_class := Some BATTERY, native_unit_of_measurement := Some PERCENTAGE,
         entity_category := Some DIAGNOSTIC\<rparr>),
     (''co2'', (SensorEntityDescription ''co2'')
        \<lparr>device_class := Some CO2,
         native_unit_of_measurement := Some CONCENTRATION_PARTS_PER_MILLION\<rparr>),
     (''voc'', (SensorEntityDescription ''voc'')
        \<lparr>device_class := Some VOLATILE_ORGANIC_COMPOUNDS_PARTS,
         native_unit_of_measurement := Some CONCENTRATION_PARTS_PER_BILLION\<rparr>),
     (''light'', (SensorEntityDescription ''light'')
        \<lparr>native_unit_of_measurement := Some PERCENTAGE, translation_key := Some ''light''\<rparr>),
     (''virusRisk'', (SensorEntityDescription ''virusRisk'')
        \<lparr>translation_key := Some ''virus_risk''\<rparr>),
     (''mold'', (SensorEntityDescription ''mold'')
        \<lparr>translation_key := Some ''mold''\<rparr>),
     (''rssi'', (SensorEntityDescription ''rssi'')
        \<lparr>device_class := Some SIGNAL_STRENGTH,
         native_unit_of_measurement := Some SIGNAL_STRENGTH_DECIBELS,
         entity_category := Some DIAGNOSTIC, entity_registry_enabled_default := False\<rparr>),
     (''pm1'', (SensorEntityDescription ''pm1'')
        \<lparr>device_class := Some PM1,
         native_unit_of_measurement := Some CONCENTRATION_MICROGRAMS_PER_CUBIC_METER\<rparr>),
     (''pm25'', (SensorEntityDescription ''pm25'')
        \<lparr>device_class := Some PM25,
         native_unit_of_measurement := Some CONCENTRATION_MICROGRAMS_PER_CUBIC_METER\<rparr>)]"

record device_info =
  configuration_url :: string
  identifiers :: "(string \<times> string) list"
  info_name :: string
  manufacturer :: string
  model :: string

text \<open>
  An \<open>AirthingsHeaterEnergySensor\<close>: its description, \<open>_attr_unique_id\<close>, \<open>_id\<close> (the
  serial number of its device) and \<open>_attr_device_info\<close>. The coordinator it reads is
  passed to its properties.
\<close>

record sensor_entity =
  entity_description :: sensor_entity_description
  attr_unique_id :: string
  ent_id :: string
  attr_device_info :: device_info

text \<open>
  \<open>AirthingsHeaterEnergySensor.__init__\<close>. \<open>DOMAIN\<close> of the cloud integration is defined in
  its \<open>const.py\<close>, which is not among the sources: it is the parameter \<open>domain\<close>.
\<close>

definition AirthingsHeaterEnergySensor ::
  "string \<Rightarrow> 'v cloud_device \<Rightarrow> sensor_entity_description \<Rightarrow> sensor_entity" where
  "AirthingsHeaterEnergySensor domain airthings_device description =
    \<lparr>entity_description = description,
     attr_unique_id = serial_number airthings_device @ ''_'' @ key description,
     ent_id = serial_number airthings_device,
     attr_device_info =
       \<lparr>configuration_url =
          ''https://dashboard.airthings.com/devices/'' @ serial_number airthings_device,
        identifiers = [(domain, serial_number airthings_device)],
        info_name = device_name airthings_device,
        manufacturer = ''Airthings'',
        model = device_type airthings_device\<rparr>\<rparr>"

text \<open>
  \<open>async_setup_entry\<close>: the entities handed to \<open>async_add_entities\<close>, from the
  coordinator's data (a dict from serial number to device, in insertion order). The
  lookup \<open>SENSORS[...]\<close> runs only under the guard \<open>in SENSORS\<close>.
\<close>

definition async_setup_entry ::
  "string \<Rightarrow> (string \<times> 'v cloud_device) list \<Rightarrow> sensor_entity list" where
  "async_setup_entry domain coordinator_data =
    [e. airthings_device \<leftarrow> map snd coordinator_data,
        sensor_types \<leftarrow> sensors airthings_device,
        e \<leftarrow> (case map_of SENSORS (sensor_type sensor_types) of
                None \<Rightarrow> []
              | Some description \<Rightarrow>
                  [AirthingsHeaterEnergySensor domain airthings_device description])]"

text \<open>The two \<open>for\<close> loops of the properties: the first sensor of the matching type decides.\<close>

fun native_value_scan :: "'v airthings_sensor list \<Rightarrow> string \<Rightarrow> 'v option" where
  "native_value_scan [] k = None"
| "native_value_scan (sensor # rest) k =
     (if sensor_type sensor = k then sensor_value sensor else native_value_scan rest k)"

fun available_scan :: "'v airthings_sensor list \<Rightarrow> string \<Rightarrow> bool" where
  "available_scan [] k = False"
| "available_scan (sensor # rest) k =
     (if sensor_type sensor = k then True else available_scan rest k)"

text \<open>
  \<open>native_value\<close> and \<open>available\<close>: \<open>self.coordinator.data[self._id]\<close> raises \<open>KeyError\<close>
  when the cached mapping has no device for the entity's serial number.
\<close>

definition native_value ::
  "(string \<times> 'v cloud_device) list \<Rightarrow> sensor_entity \<Rightarrow> py_exc + 'v option" where
  "native_value coordinator_data self =
    (case map_of coordinator_data (ent_id self) of
       None \<Rightarrow> Inl (key_error (ent_id self))
     | Some dev \<Rightarrow> Inr (native_value_scan (sensors dev) (key (entity_description self))))"

definition available ::
  "(string \<times> 'v cloud_device) list \<Rightarrow> sensor_entity \<Rightarrow> py_exc + bool" where
  "available coordinator_data self =
    (case map_of coordinator_data (ent_id self) of
       None \<Rightarrow> Inl (key_error (ent_id self))
     | Some dev \<Rightarrow> Inr (available_scan (sensors dev) (key (entity_description self))))"

text \<open>The entities created for one serial number and one sensor type.\<close>

definition entities_for :: "string \<Rightarrow> string \<Rightarrow> sensor_entity list \<Rightarrow> sensor_entity list" where
  "entities_for sn t es = filter (\<lambda>e. ent_id e = sn \<and> key (entity_description e) = t) es"

text \<open>The number of readings of type \<open>t\<close> in the bundles of the devices with serial number \<open>sn\<close>.\<close>

definition readings_of :: "string \<Rightarrow> string \<Rightarrow> (string \<times> 'v cloud_device) list \<Rightarrow> nat" where
  "readings_of sn t coordinator_data =
    sum_list (map (\<lambda>dev. if serial_number dev = sn
                          then length (filter (\<lambda>s. sensor_type s = t) (sensors dev)) else 0)
                (map snd coordinator_data))"

section \<open>Concrete inputs\<close>

definition dev_wave :: airthings_device where
  "dev_wave =
    \<lparr>friendly_name = ''Airthings Wave Plus'', device_identifier = ''123456'',
     firmware = \<lparr>current_firmware = ''G-BLE-1.5.3'', needed_firmware = ''G-BLE-1.5.3'',
                 need_fw_upgrade = False\<rparr>\<rparr>"

definition dev_outdated :: airthings_device where
  "dev_outdated =
    \<lparr>friendly_name = ''Airthings Wave Mini'', device_identifier = [],
     firmware = \<lparr>current_firmware = ''1.0.0'', needed_firmware = ''2.0.0'',
                 need_fw_upgrade = True\<rparr>\<rparr>"

definition adv_wave :: bluetooth_service_info where
  "adv_wave =
    \<lparr>name = ''Airthings Wave+'', address = ''AA:01'', manufacturer_data = [(820, [1, 2])],
     service_uuids = [''b42e1c08-ade7-11e4-89d3-123b93f75cba'']\<rparr>"

definition adv_mini :: bluetooth_service_info where
  "adv_mini =
    \<lparr>name = ''Airthings Mini'', address = ''AA:02'', manufacturer_data = [(820, [])],
     service_uuids = [''b42e3882-ade7-11e4-89d3-123b93f75cba'']\<rparr>"

definition adv_tern :: bluetooth_service_info where
  "adv_tern =
    \<lparr>name = ''Tern CO2'', address = ''AA:03'', manufacturer_data = [(820, [7])],
     service_uuids = []\<rparr>"

definition adv_speaker :: bluetooth_service_info where
  "adv_speaker =
    \<lparr>name = ''Speaker'', address = ''AA:04'', manufacturer_data = [(76, [0])],
     service_uuids = [''0000180f-0000-1000-8000-00805f9b34fb'']\<rparr>"

definition adv_unknown_service :: bluetooth_service_info where
  "adv_unknown_service =
    \<lparr>name = ''Airthings View'', address = ''AA:05'', manufacturer_data = [(820, [3])],
     service_uuids = [''0000180f-0000-1000-8000-00805f9b34fb'']\<rparr>"

text \<open>A host where every address resolves and the SDK returns \<open>dev_wave\<close>.\<close>

definition hass_ok :: hass where
  "hass_ok =
    \<lparr>async_ble_device_from_address = (\<lambda>a. Some (BLEDevice a)),
     update_device = (\<lambda>bd. Inr dev_wave),
     async_discovered_service_info = [adv_wave],
     async_current_ids = []\<rparr>"

text \<open>The same host with the address of \<open>adv_wave\<close> configured.\<close>

definition hass_configured :: hass where
  "hass_configured = hass_ok\<lparr>async_current_ids := [''AA:01'']\<rparr>"

text \<open>A host whose SDK raises \<open>ValueError("bad")\<close>, and one whose SDK raises \<open>ValueError()\<close>.\<close>

definition hass_value_error :: hass where
  "hass_value_error =
    hass_ok\<lparr>update_device := (\<lambda>bd. Inl (PyExc (OtherException ''ValueError'') [''bad''] ''bad''))\<rparr>"

definition hass_value_error_no_args :: hass where
  "hass_value_error_no_args =
    hass_ok\<lparr>update_device := (\<lambda>bd. Inl (PyExc (OtherException ''ValueError'') [] []))\<rparr>"

text \<open>
  A host that sees three qualifying advertisements and resolves a handle for the first
  address only.
\<close>

definition hass_three :: hass where
  "hass_three =
    \<lparr>async_ble_device_from_address = (\<lambda>a. if a = ''AA:01'' then Some (BLEDevice a) else None),
     update_device = (\<lambda>bd. Inr dev_wave),
     async_discovered_service_info = [adv_wave, adv_mini, adv_tern],
     async_current_ids = []\<rparr>"

text \<open>A host that sees only advertisements the scan skips.\<close>

definition hass_nothing :: hass where
  "hass_nothing =
    hass_configured\<lparr>async_discovered_service_info := [adv_wave, adv_speaker, adv_unknown_service]\<rparr>"

text \<open>A flow whose scan has discovered a device that needs a firmware upgrade.\<close>

definition flow_outdated :: flow where
  "flow_outdated =
    init_flow\<lparr>discovered_devices :=
      [(''AA:01'', \<lparr>disc_name = ''Airthings Wave Mini'', discovery_info = adv_wave,
                    disc_device = dev_outdated\<rparr>)]\<rparr>"

text \<open>Cloud data: one device whose bundle lists the type \<open>temp\<close> twice and an unknown type.\<close>

definition cloud_twice :: "(string \<times> int cloud_device) list" where
  "cloud_twice =
    [(''2960000001'',
      \<lparr>serial_number = ''2960000001'', device_name = ''Living room'', device_type = ''WAVE_PLUS'',
       sensors = [\<lparr>sensor_type = ''temp'', sensor_value = Some 21\<rparr>,
                  \<lparr>sensor_type = ''temp'', sensor_value = Some 22\<rparr>,
                  \<lparr>sensor_type = ''relayDeviceType'', sensor_value = None\<rparr>]\<rparr>)]"

text \<open>Cloud data: one device whose bundle lists each type once.\<close>

definition sensor_temp :: "int airthings_sensor" where
  "sensor_temp = \<lparr>sensor_type = ''temp'', sensor_value = Some 21\<rparr>"

definition dev_living_room :: "int cloud_device" where
  "dev_living_room =
    \<lparr>serial_number = ''2960000001'', device_name = ''Living room'', device_type = ''WAVE_PLUS'',
     sensors = [sensor_temp,
                \<lparr>sensor_type = ''co2'', sensor_value = Some 640\<rparr>,
                \<lparr>sensor_type = ''relayDeviceType'', sensor_value = None\<rparr>]\<rparr>"

definition cloud_once :: "(string \<times> int cloud_device) list" where
  "cloud_once = [(''2960000001'', dev_living_room)]"

text \<open>Two entities of that device: one for a type its bundle has, one for a type it lacks.\<close>

definition entity_temp :: sensor_entity where
  "entity_temp =
    AirthingsHeaterEnergySensor ''airthings'' dev_living_room
      ((SensorEntityDescription ''temp'')
         \<lparr>device_class := Some TEMPERATURE, native_unit_of_measurement := Some CELSIUS\<rparr>)"

definition entity_mold :: sensor_entity where
  "entity_mold =
    AirthingsHeaterEnergySensor ''airthings'' dev_living_room
      ((SensorEntityDescription ''mold'')\<lparr>translation_key := Some ''mold''\<rparr>)"

text \<open>What the SDK call of a poll cycle may do: fail with its domain error, or return.\<close>

definition sdk_unauthorized :: "py_exc + (string \<times> int cloud_device) list" where
  "sdk_unauthorized = Inl (PyExc AirthingsError [''Unauthorized''] ''Unauthorized'')"

section \<open>Properties of the helpers\<close>

text \<open>\<open>str_contains\<close> is Python's substring test.\<close>

lemma starts_with_iff: "starts_with n h \<longleftrightarrow> (\<exists>s. h = n @ s)"
  by (induction n h rule: starts_with.induct) auto

lemma str_contains_iff: "str_contains n h \<longleftrightarrow> (\<exists>p s. h = p @ n @ s)"
proof (induction h)
  case Nil
  then show ?case by auto
next
  case (Cons c cs)
  show ?case
  proof
    assume "str_contains n (c # cs)"
    then consider "starts_with n (c # cs)" | "str_contains n cs" by auto
    then show "\<exists>p s. c # cs = p @ n @ s"
    proof cases
      case 1
      then obtain s where "c # cs = n @ s" by (auto simp: starts_with_iff)
      then have "c # cs = [] @ n @ s" by simp
      then show ?thesis by blast
    next
      case 2
      then obtain p s where "cs = p @ n @ s" using Cons.IH by auto
      then have "c # cs = (c # p) @ n @ s" by simp
      then show ?thesis by blast
    qed
  next
    assume "\<exists>p s. c # cs = p @ n @ s"
    then obtain p s where ps: "c # cs = p @ n @ s" by auto
    show "str_contains n (c # cs)"
    proof (cases p)
      case Nil
      then have "starts_with n (c # cs)" using ps by (auto simp: starts_with_iff)
      then show ?thesis by simp
    next
      case (Cons a p')
      then have "cs = p' @ n @ s" using ps by simp
      then have "str_contains n cs" using Cons.IH by blast
      then show ?thesis by simp
    qed
  qed
qed

section \<open>The device-data fetch\<close>

text \<open>The fetch changes nothing of the flow but its events.\<close>

lemma get_device_data_keeps:
  assumes "get_device_data h di fl = (r, fl')"
  shows "unique_id fl' = unique_id fl" and "discovered_devices fl' = discovered_devices fl"
    and "title_placeholders fl' = title_placeholders fl"
  using assms
  by (auto simp: get_device_data_def try_update_device_def emit_def Let_def
      split: option.splits sum.splits list.splits prod.splits if_splits)

text \<open>
  When the handle resolves and the SDK raises an \<open>Exception\<close> that is not a \<open>BleakError\<close>,
  the fetch never returns a value: it raises \<open>IndexError\<close> (empty \<open>args\<close>) or
  \<open>UnboundLocalError\<close>.
\<close>

lemma get_device_data_unknown_raises:
  assumes "async_ble_device_from_address h (address di) = Some bd"
    and "update_device h bd = Inl err"
    and "is_Exception err" and "\<not> is_BleakError err"
  shows "\<exists>e. fst (get_device_data h di fl) = Inl e \<and> exc_cls e \<in> {UnboundLocalError, IndexError}"
  using assms
  by (auto simp: get_device_data_def try_update_device_def emit_def Let_def raise_msg_def
      unbound_local_def split: option.splits sum.splits list.splits prod.splits)

lemma get_device_data_success:
  assumes "async_ble_device_from_address h (address di) = Some bd"
    and "update_device h bd = Inr d"
  shows "fst (get_device_data h di fl) = Inr \<lparr>device = d, data = AirthingsBluetoothDeviceData\<rparr>"
  using assms
  by (auto simp: get_device_data_def try_update_device_def emit_def Let_def raise_msg_def
      split: option.splits sum.splits list.splits prod.splits)

text \<open>
  Claim C1. With the handle resolved and the SDK raising \<open>ValueError("bad")\<close>, the fetch
  logs the error twice and then raises \<open>UnboundLocalError\<close> at its \<open>return\<close>, the local
  \<open>device\<close> never having been assigned; it returns no value. With \<open>ValueError()\<close> the second
  log call itself raises \<open>IndexError\<close> inside the handler.
\<close>

theorem get_device_data_unknown_error_raises:
  "fst (get_device_data hass_value_error adv_wave init_flow) = Inl (unbound_local ''device'')
   \<and> events (snd (get_device_data hass_value_error adv_wave init_flow)) =
       [CallBleDeviceFromAddress ''AA:01'', CallUpdateDevice (BLEDevice ''AA:01''),
        Log Error ''Unknown error occurred from %s: %s''
          [LStr ''AA:01'', LExc (PyExc (OtherException ''ValueError'') [''bad''] ''bad'')],
        Log Error ''There was an error: %s'' [LStr ''bad'']]
   \<and> fst (get_device_data hass_value_error_no_args adv_wave init_flow) =
       Inl (raise_msg IndexError ''tuple index out of range'')"
  by (simp add: get_device_data_def try_update_device_def hass_value_error_def
      hass_value_error_no_args_def hass_ok_def adv_wave_def init_flow_def emit_def
      is_BleakError_def Let_def)

section \<open>The automatic path\<close>

lemma step_bluetooth_configured:
  assumes "address di \<in> set (async_current_ids h)"
  shows "async_step_bluetooth h di fl =
     (Inl (raise_msg AbortFlow ''already_configured''),
      fl\<lparr>unique_id := Some (address di),
         events := events fl @ [Log Debug ''async_step_bluetooth'' [],
                                Log Debug ''Discovered BT device: %s'' [LInfo di]]\<rparr>)"
  using assms
  by (simp add: async_step_bluetooth_def abort_if_unique_id_configured_def
      async_set_unique_id_def emit_def Let_def)

text \<open>
  Claim C4. When the advertisement's address is a configured unique id, the discovery
  step ends in the abort \<open>already_configured\<close>, and the only events of the invocation are
  its two debug log records: no call to the Bluetooth adapter or to the SDK is made.
\<close>

theorem bluetooth_configured_aborts_without_fetch:
  assumes "address di \<in> set (async_current_ids h)"
  shows "flow_manager_result (fst (async_step_bluetooth h di fl)) = Inr (Abort ''already_configured'')
       \<and> events (snd (async_step_bluetooth h di fl)) =
           events fl @ [Log Debug ''async_step_bluetooth'' [],
                        Log Debug ''Discovered BT device: %s'' [LInfo di]]
       \<and> filter is_fetch_event
           (drop (length (events fl)) (events (snd (async_step_bluetooth h di fl)))) = []"
  using assms
  by (simp add: step_bluetooth_configured flow_manager_result_def raise_msg_def)

theorem bluetooth_configured_aborts_without_fetch_witness:
  "address adv_wave \<in> set (async_current_ids hass_configured)
   \<and> flow_manager_result (fst (async_step_bluetooth hass_configured adv_wave init_flow))
       = Inr (Abort ''already_configured'')
   \<and> events (snd (async_step_bluetooth hass_configured adv_wave init_flow)) =
       [Log Debug ''async_step_bluetooth'' [], Log Debug ''Discovered BT device: %s'' [LInfo adv_wave]]"
proof -
  have a: "address adv_wave \<in> set (async_current_ids hass_configured)"
    by (simp add: adv_wave_def hass_configured_def)
  show ?thesis
    using bluetooth_configured_aborts_without_fetch [OF a, of init_flow] a
    by (simp add: init_flow_def)
qed

lemma confirm_None:
  "title_placeholders fl = Some tp \<Longrightarrow>
   async_step_bluetooth_confirm fl None =
     (Inr (ShowForm ''bluetooth_confirm'' (Some tp) None),
      emit (Log Debug ''async_step_bluetooth_confirm'' []) fl)"
  by (simp add: async_step_bluetooth_confirm_def emit_def Let_def)

lemma confirm_Some:
  "title_placeholders fl = Some [(''name'', nm)] \<Longrightarrow>
   async_step_bluetooth_confirm fl (Some ui) =
     (Inr (CreateEntry nm), emit (Log Debug ''async_step_bluetooth_confirm'' []) fl)"
  by (simp add: async_step_bluetooth_confirm_def emit_def Let_def)

lemma confirm_keeps_unique_id:
  "unique_id (snd (async_step_bluetooth_confirm fl ui)) = unique_id fl"
  by (auto simp: async_step_bluetooth_confirm_def emit_def Let_def split: option.splits)

lemma step_bluetooth_success:
  assumes "address di \<notin> set (async_current_ids h)"
    and "async_ble_device_from_address h (address di) = Some bd"
    and "update_device h bd = Inr d"
  shows "\<exists>fl1. async_step_bluetooth h di fl =
           (Inr (ShowForm ''bluetooth_confirm''
                   (Some [(''name'', get_name \<lparr>device = d, data = AirthingsBluetoothDeviceData\<rparr>)]) None),
            fl1)
         \<and> title_placeholders fl1 =
             Some [(''name'', get_name \<lparr>device = d, data = AirthingsBluetoothDeviceData\<rparr>)]"
proof -
  let ?fl3 = "async_set_unique_id (address di)
       (emit (Log Debug ''Discovered BT device: %s'' [LInfo di])
         (emit (Log Debug ''async_step_bluetooth'' []) fl))"
  have g: "fst (get_device_data h di ?fl3) = Inr \<lparr>device = d, data = AirthingsBluetoothDeviceData\<rparr>"
    using assms(2,3) by (rule get_device_data_success)
  then obtain fl4 where g4: "get_device_data h di ?fl3 =
      (Inr \<lparr>device = d, data = AirthingsBluetoothDeviceData\<rparr>, fl4)"
    by (cases "get_device_data h di ?fl3") auto
  have ab: "abort_if_unique_id_configured h ?fl3 = None"
    using assms(1) by (simp add: abort_if_unique_id_configured_def async_set_unique_id_def)
  show ?thesis
    using ab g4
    by (simp add: async_step_bluetooth_def Let_def confirm_None emit_def)
qed

lemma step_bluetooth_unique_id:
  "unique_id (snd (async_step_bluetooth h di fl)) = Some (address di)"
proof -
  let ?fl3 = "async_set_unique_id (address di)
       (emit (Log Debug ''Discovered BT device: %s'' [LInfo di])
         (emit (Log Debug ''async_step_bluetooth'' []) fl))"
  have u3: "unique_id ?fl3 = Some (address di)"
    by (simp add: async_set_unique_id_def)
  obtain r fl4 where g: "get_device_data h di ?fl3 = (r, fl4)"
    by (cases "get_device_data h di ?fl3") auto
  have u4: "unique_id fl4 = Some (address di)"
    using get_device_data_keeps(1) [OF g] u3 by simp
  show ?thesis
    using g u3 u4
    by (auto simp: async_step_bluetooth_def Let_def confirm_keeps_unique_id
        split: option.splits sum.splits)
qed

lemma bluetooth_path_configured:
  assumes "address di \<in> set (async_current_ids h)"
  shows "fst (bluetooth_path h di submitted fl) = Inr (Abort ''already_configured'')"
  using assms
  by (simp add: bluetooth_path_def step_bluetooth_configured flow_manager_result_def raise_msg_def)

text \<open>
  Claim C7. After a successful fetch of device \<open>d\<close> the name is \<open>friendly_name (identifier)\<close>
  when the identifier is non-empty and \<open>friendly_name\<close> otherwise; the discovery step shows
  the confirmation form with that name as its placeholder, and the entry the automatic
  path creates on submission has it as its title.
\<close>

theorem confirmation_name_is_get_name:
  assumes "address di \<notin> set (async_current_ids h)"
    and "async_ble_device_from_address h (address di) = Some bd"
    and "update_device h bd = Inr d"
  shows "get_name \<lparr>device = d, data = AirthingsBluetoothDeviceData\<rparr> =
           (if device_identifier d \<noteq> [] then friendly_name d @ '' ('' @ device_identifier d @ '')''
            else friendly_name d)
       \<and> fst (async_step_bluetooth h di fl) =
           Inr (ShowForm ''bluetooth_confirm''
                  (Some [(''name'',
                     if device_identifier d \<noteq> [] then friendly_name d @ '' ('' @ device_identifier d @ '')''
                     else friendly_name d)]) None)
       \<and> fst (bluetooth_path h di submitted fl) =
           Inr (CreateEntry
                  (if device_identifier d \<noteq> [] then friendly_name d @ '' ('' @ device_identifier d @ '')''
                   else friendly_name d))"
proof -
  let ?nm = "get_name \<lparr>device = d, data = AirthingsBluetoothDeviceData\<rparr>"
  have nm: "?nm = (if device_identifier d \<noteq> [] then friendly_name d @ '' ('' @ device_identifier d @ '')''
            else friendly_name d)"
    by (simp add: get_name_def Let_def)
  obtain fl1 where s: "async_step_bluetooth h di fl =
      (Inr (ShowForm ''bluetooth_confirm'' (Some [(''name'', ?nm)]) None), fl1)"
    and tp: "title_placeholders fl1 = Some [(''name'', ?nm)]"
    using step_bluetooth_success [OF assms] by blast
  have p: "fst (bluetooth_path h di submitted fl) = Inr (CreateEntry ?nm)"
    using s confirm_Some [OF tp]
    by (simp add: bluetooth_path_def flow_manager_result_def)
  show ?thesis using nm s p by simp
qed

theorem confirmation_name_is_get_name_witness:
  "address adv_wave \<notin> set (async_current_ids hass_ok)
   \<and> async_ble_device_from_address hass_ok (address adv_wave) = Some (BLEDevice ''AA:01'')
   \<and> update_device hass_ok (BLEDevice ''AA:01'') = Inr dev_wave
   \<and> fst (async_step_bluetooth hass_ok adv_wave init_flow) =
       Inr (ShowForm ''bluetooth_confirm'' (Some [(''name'', ''Airthings Wave Plus (123456)'')]) None)
   \<and> fst (bluetooth_path hass_ok adv_wave [] init_flow) =
       Inr (CreateEntry ''Airthings Wave Plus (123456)'')"
proof -
  have a: "address adv_wave \<notin> set (async_current_ids hass_ok)"
    by (simp add: hass_ok_def)
  have b: "async_ble_device_from_address hass_ok (address adv_wave) = Some (BLEDevice ''AA:01'')"
    by (simp add: hass_ok_def adv_wave_def)
  have c: "update_device hass_ok (BLEDevice ''AA:01'') = Inr dev_wave"
    by (simp add: hass_ok_def)
  show ?thesis
    using confirmation_name_is_get_name [OF a b c, of init_flow "[]"] a b c
    by (simp add: dev_wave_def)
qed

section \<open>The manual path\<close>

lemma step_user_select:
  assumes "map_of ui CONF_ADDRESS = Some addr"
    and "map_of (discovered_devices fl) addr = Some disc"
    and "need_fw_upgrade (firmware (disc_device disc))"
  shows "flow_manager_result (fst (async_step_user h fl (Some ui))) =
           Inr (Abort (if addr \<in> set (async_current_ids h) then ''already_configured''
                       else ''firmware_upgrade_required''))"
  using assms
  by (simp add: async_step_user_def abort_if_unique_id_configured_def
      async_set_unique_id_def emit_def Let_def flow_manager_result_def raise_msg_def)

lemma step_user_unique_id:
  assumes "map_of ui CONF_ADDRESS = Some addr"
  shows "unique_id (snd (async_step_user h fl (Some ui))) = Some addr"
  using assms
  by (auto simp: async_step_user_def async_set_unique_id_def emit_def Let_def
      split: option.splits)

lemma step_user_configured:
  assumes "map_of ui CONF_ADDRESS = Some addr" and "addr \<in> set (async_current_ids h)"
  shows "fst (async_step_user h fl (Some ui)) = Inl (raise_msg AbortFlow ''already_configured'')"
  using assms
  by (simp add: async_step_user_def abort_if_unique_id_configured_def
      async_set_unique_id_def emit_def Let_def)

text \<open>
  Claim C5, as the code has it. A submission that selects a discovered device whose
  firmware record has \<open>need_fw_upgrade\<close> set never creates an entry. It aborts with
  \<open>firmware_upgrade_required\<close> when the address is not configured at selection time; when it
  is, the earlier unique-id check aborts with \<open>already_configured\<close>.
\<close>

theorem user_select_firmware_upgrade_aborts:
  assumes "map_of ui CONF_ADDRESS = Some addr"
    and "map_of (discovered_devices fl) addr = Some disc"
    and "need_fw_upgrade (firmware (disc_device disc))"
  shows "flow_manager_result (fst (async_step_user h fl (Some ui))) =
           Inr (Abort (if addr \<in> set (async_current_ids h) then ''already_configured''
                       else ''firmware_upgrade_required''))
       \<and> flow_manager_result (fst (async_step_user h fl (Some ui))) \<noteq> Inr (CreateEntry t)"
  using step_user_select [OF assms, of h] by simp

theorem user_select_firmware_upgrade_aborts_witness:
  "map_of [(''address'', ''AA:01'')] CONF_ADDRESS = Some ''AA:01''
   \<and> map_of (discovered_devices flow_outdated) ''AA:01'' =
       Some \<lparr>disc_name = ''Airthings Wave Mini'', discovery_info = adv_wave, disc_device = dev_outdated\<rparr>
   \<and> need_fw_upgrade (firmware dev_outdated)
   \<and> flow_manager_result (fst (async_step_user hass_ok flow_outdated (Some [(''address'', ''AA:01'')])))
       = Inr (Abort ''firmware_upgrade_required'')"
proof -
  have a: "map_of [(''address'', ''AA:01'')] CONF_ADDRESS = Some ''AA:01''"
    by (simp add: CONF_ADDRESS_def)
  have b: "map_of (discovered_devices flow_outdated) ''AA:01'' =
       Some \<lparr>disc_name = ''Airthings Wave Mini'', discovery_info = adv_wave, disc_device = dev_outdated\<rparr>"
    by (simp add: flow_outdated_def init_flow_def)
  have c: "need_fw_upgrade (firmware (disc_device
       \<lparr>disc_name = ''Airthings Wave Mini'', discovery_info = adv_wave, disc_device = dev_outdated\<rparr>))"
    by (simp add: dev_outdated_def)
  have d: "''AA:01'' \<notin> set (async_current_ids hass_ok)"
    by (simp add: hass_ok_def)
  show ?thesis
    using user_select_firmware_upgrade_aborts [OF a b c, of hass_ok] a b c d by simp
qed

text \<open>
  Claim C5 as stated fails: the selected device is discovered and needs a firmware
  upgrade, its address is configured at selection time, and the abort reason is
  \<open>already_configured\<close>, not \<open>firmware_upgrade_required\<close>.
\<close>

theorem user_select_firmware_upgrade_counterexample:
  "map_of [(''address'', ''AA:01'')] CONF_ADDRESS = Some ''AA:01''
   \<and> map_of (discovered_devices flow_outdated) ''AA:01'' =
       Some \<lparr>disc_name = ''Airthings Wave Mini'', discovery_info = adv_wave, disc_device = dev_outdated\<rparr>
   \<and> need_fw_upgrade (firmware dev_outdated)
   \<and> flow_manager_result (fst (async_step_user hass_configured flow_outdated (Some [(''address'', ''AA:01'')])))
       = Inr (Abort ''already_configured'')
   \<and> flow_manager_result (fst (async_step_user hass_configured flow_outdated (Some [(''address'', ''AA:01'')])))
       \<noteq> Inr (Abort ''firmware_upgrade_required'')"
proof -
  have a: "map_of [(''address'', ''AA:01'')] CONF_ADDRESS = Some ''AA:01''"
    by (simp add: CONF_ADDRESS_def)
  have b: "map_of (discovered_devices flow_outdated) ''AA:01'' =
       Some \<lparr>disc_name = ''Airthings Wave Mini'', discovery_info = adv_wave, disc_device = dev_outdated\<rparr>"
    by (simp add: flow_outdated_def init_flow_def)
  have c: "need_fw_upgrade (firmware dev_outdated)"
    by (simp add: dev_outdated_def)
  have d: "''AA:01'' \<in> set (async_current_ids hass_configured)"
    by (simp add: hass_configured_def)
  have "flow_manager_result (fst (async_step_user hass_configured flow_outdated (Some [(''address'', ''AA:01'')])))
       = Inr (Abort ''already_configured'')"
    using step_user_select [OF a b, of hass_configured] c d by simp
  then show ?thesis using a b c by simp
qed

text \<open>A scan that skips every advertisement ends normally and discovers nothing.\<close>

lemma scan_loop_all_filtered:
  assumes "\<forall>di \<in> set xs.
        address di \<in> set cur \<or> map_of (discovered_devices fl) (address di) \<noteq> None
      \<or> map_of (manufacturer_data di) 820 = None
      \<or> (\<not> (\<exists>u \<in> set (service_uuids di). u \<in> set SERVICE_UUIDS)
           \<and> \<not> str_contains ''Tern'' (name di))"
  shows "fst (scan_loop h cur xs fl) = None
       \<and> discovered_devices (snd (scan_loop h cur xs fl)) = discovered_devices fl"
  using assms
proof (induction xs arbitrary: fl)
  case Nil
  then show ?case by simp
next
  case (Cons di xs)
  have dd: "discovered_devices (emit ev fl) = discovered_devices fl" for ev
    by (simp add: emit_def)
  from Cons.prems have tl: "\<forall>di \<in> set xs.
        address di \<in> set cur \<or> map_of (discovered_devices fl) (address di) \<noteq> None
      \<or> map_of (manufacturer_data di) 820 = None
      \<or> (\<not> (\<exists>u \<in> set (service_uuids di). u \<in> set SERVICE_UUIDS)
           \<and> \<not> str_contains ''Tern'' (name di))" by simp
  from Cons.prems have hd: "address di \<in> set cur \<or> map_of (discovered_devices fl) (address di) \<noteq> None
      \<or> map_of (manufacturer_data di) 820 = None
      \<or> (\<not> (\<exists>u \<in> set (service_uuids di). u \<in> set SERVICE_UUIDS)
           \<and> \<not> str_contains ''Tern'' (name di))" by simp
  have ih1: "fst (scan_loop h cur xs fl) = None
       \<and> discovered_devices (snd (scan_loop h cur xs fl)) = discovered_devices fl"
    using Cons.IH [of fl] tl by simp
  have ih2: "fst (scan_loop h cur xs (emit ev fl)) = None
       \<and> discovered_devices (snd (scan_loop h cur xs (emit ev fl))) = discovered_devices fl" for ev
    using Cons.IH [of "emit ev fl"] tl by (simp add: dd)
  from hd show ?case
    using ih1 ih2 by (auto simp: MFCT_ID_def list_ex_iff)
qed

text \<open>
  Claim C6. When the scan skips every visible advertisement (address configured or
  already discovered, or no manufacturer id 820, or no known service UUID and no \<open>Tern\<close> in
  the name) and nothing was discovered before, the step aborts with \<open>no_devices_found\<close>.
\<close>

theorem user_scan_nothing_found:
  assumes "\<forall>di \<in> set (async_discovered_service_info h).
        address di \<in> set (async_current_ids h)
      \<or> map_of (discovered_devices fl) (address di) \<noteq> None
      \<or> map_of (manufacturer_data di) 820 = None
      \<or> (\<not> (\<exists>u \<in> set (service_uuids di). u \<in> set SERVICE_UUIDS)
           \<and> \<not> str_contains ''Tern'' (name di))"
    and "discovered_devices fl = []"
  shows "fst (async_step_user h fl None) = Inr (Abort ''no_devices_found'')"
proof -
  let ?fl0 = "emit (Log Debug ''async_step_user'' []) fl"
  have dd: "discovered_devices ?fl0 = discovered_devices fl" by (simp add: emit_def)
  have "fst (scan_loop h (async_current_ids h) (async_discovered_service_info h) ?fl0) = None
     \<and> discovered_devices (snd (scan_loop h (async_current_ids h) (async_discovered_service_info h) ?fl0))
         = discovered_devices ?fl0"
    by (rule scan_loop_all_filtered) (use assms(1) dd in simp)
  then obtain fl1 where
    "scan_loop h (async_current_ids h) (async_discovered_service_info h) ?fl0 = (None, fl1)"
    and "discovered_devices fl1 = []"
    using assms(2) dd
    by (cases "scan_loop h (async_current_ids h) (async_discovered_service_info h) ?fl0") auto
  then show ?thesis
    by (simp add: async_step_user_def Let_def)
qed

theorem user_scan_nothing_found_witness:
  "async_discovered_service_info hass_nothing = [adv_wave, adv_speaker, adv_unknown_service]
   \<and> address adv_wave \<in> set (async_current_ids hass_nothing)
   \<and> map_of (manufacturer_data adv_speaker) 820 = None
   \<and> \<not> (\<exists>u \<in> set (service_uuids adv_unknown_service). u \<in> set SERVICE_UUIDS)
   \<and> \<not> str_contains ''Tern'' (name adv_unknown_service)
   \<and> discovered_devices init_flow = []
   \<and> fst (async_step_user hass_nothing init_flow None) = Inr (Abort ''no_devices_found'')"
proof -
  have v: "async_discovered_service_info hass_nothing = [adv_wave, adv_speaker, adv_unknown_service]"
    by (simp add: hass_nothing_def)
  have a: "address adv_wave \<in> set (async_current_ids hass_nothing)"
    by (simp add: hass_nothing_def hass_configured_def adv_wave_def)
  have b: "map_of (manufacturer_data adv_speaker) 820 = None"
    by (simp add: adv_speaker_def)
  have c: "\<not> (\<exists>u \<in> set (service_uuids adv_unknown_service). u \<in> set SERVICE_UUIDS)"
    by (simp add: adv_unknown_service_def SERVICE_UUIDS_def)
  have d: "\<not> str_contains ''Tern'' (name adv_unknown_service)"
    by (simp add: adv_unknown_service_def)
  have e: "discovered_devices init_flow = []"
    by (simp add: init_flow_def)
  have all: "\<forall>di \<in> set (async_discovered_service_info hass_nothing).
        address di \<in> set (async_current_ids hass_nothing)
      \<or> map_of (discovered_devices init_flow) (address di) \<noteq> None
      \<or> map_of (manufacturer_data di) 820 = None
      \<or> (\<not> (\<exists>u \<in> set (service_uuids di). u \<in> set SERVICE_UUIDS)
           \<and> \<not> str_contains ''Tern'' (name di))"
    using a b c d by (simp add: v)
  show ?thesis
    using user_scan_nothing_found [OF all e] v a b c d e by simp
qed

text \<open>The loop over a concatenation: the second part runs only if the first ran to its end.\<close>

lemma scan_loop_append:
  "scan_loop h cur (xs @ ys) fl =
     (case scan_loop h cur xs fl of
        (None, fl1) \<Rightarrow> scan_loop h cur ys fl1
      | (Some r, fl1) \<Rightarrow> (Some r, fl1))"
proof (induction xs arbitrary: fl)
  case Nil
  then show ?case by simp
next
  case (Cons di xs)
  show ?case
    by (simp add: Cons.IH split: prod.splits sum.splits)
qed

text \<open>
  Claim C9. Let the scan reach a candidate \<open>di\<close> (the advertisements before it were
  processed without leaving the loop) that passes every filter. If the fetch for \<open>di\<close>
  raises an \<open>Exception\<close>, the whole step aborts, with \<open>cannot_connect\<close> for
  \<open>AirthingsDeviceUpdateError\<close> and \<open>unknown\<close> otherwise, whatever advertisements follow
  and whatever was discovered already.
\<close>

theorem user_scan_fetch_failure_aborts:
  assumes "async_discovered_service_info h = pre @ di # post"
    and "scan_loop h (async_current_ids h) pre (emit (Log Debug ''async_step_user'' []) fl) = (None, fl1)"
    and "address di \<notin> set (async_current_ids h)"
    and "map_of (discovered_devices fl1) (address di) = None"
    and "map_of (manufacturer_data di) MFCT_ID \<noteq> None"
    and "list_ex (\<lambda>uuid. uuid \<in> set SERVICE_UUIDS) (service_uuids di) \<or> str_contains ''Tern'' (name di)"
    and "fst (get_device_data h di (emit (Log Debug ''Continuing with %s'' [LStr (name di)]) fl1)) = Inl e"
    and "is_Exception e"
  shows "fst (async_step_user h fl None) =
           Inr (Abort (if is_AirthingsDeviceUpdateError e then ''cannot_connect'' else ''unknown''))"
proof -
  let ?fl0 = "emit (Log Debug ''async_step_user'' []) fl"
  let ?fl2 = "emit (Log Debug ''Continuing with %s'' [LStr (name di)]) fl1"
  obtain fl3 where g: "get_device_data h di ?fl2 = (Inl e, fl3)"
    using assms(7) by (cases "get_device_data h di ?fl2") auto
  have "scan_loop h (async_current_ids h) (di # post) fl1 =
          (Some (Inr (Abort (if is_AirthingsDeviceUpdateError e then ''cannot_connect'' else ''unknown''))), fl3)"
    using assms(3,4,5,6,8) g by auto
  then have "scan_loop h (async_current_ids h) (pre @ di # post) ?fl0 =
          (Some (Inr (Abort (if is_AirthingsDeviceUpdateError e then ''cannot_connect'' else ''unknown''))), fl3)"
    using assms(2) by (simp add: scan_loop_append)
  then show ?thesis
    using assms(1) by (simp add: async_step_user_def Let_def)
qed

lemma scan_three_first:
  "scan_loop hass_three (async_current_ids hass_three) [adv_wave]
     (emit (Log Debug ''async_step_user'' []) init_flow) =
   (None,
    \<lparr>unique_id = None, title_placeholders = None, discovered_device = None,
     discovered_devices =
       [(''AA:01'', \<lparr>disc_name = ''Airthings Wave Plus (123456)'', discovery_info = adv_wave,
                     disc_device = dev_wave\<rparr>)],
     events = [Log Debug ''async_step_user'' [],
               Log Debug ''Continuing with %s'' [LStr ''Airthings Wave+''],
               CallBleDeviceFromAddress ''AA:01'', CallUpdateDevice (BLEDevice ''AA:01'')]\<rparr>)"
  by (simp add: hass_three_def adv_wave_def init_flow_def emit_def MFCT_ID_def SERVICE_UUIDS_def
      get_device_data_def try_update_device_def get_name_def dev_wave_def Let_def)

theorem user_scan_fetch_failure_aborts_witness:
  "async_discovered_service_info hass_three = [adv_wave] @ adv_mini # [adv_tern]
   \<and> address adv_mini \<notin> set (async_current_ids hass_three)
   \<and> map_of (manufacturer_data adv_mini) MFCT_ID \<noteq> None
   \<and> list_ex (\<lambda>uuid. uuid \<in> set SERVICE_UUIDS) (service_uuids adv_mini)
   \<and> is_Exception (raise_msg AirthingsDeviceUpdateError ''No ble_device'')
   \<and> fst (async_step_user hass_three init_flow None) = Inr (Abort ''cannot_connect'')"
proof -
  let ?fl1 = "\<lparr>unique_id = None, title_placeholders = None, discovered_device = None,
     discovered_devices =
       [(''AA:01'', \<lparr>disc_name = ''Airthings Wave Plus (123456)'', discovery_info = adv_wave,
                     disc_device = dev_wave\<rparr>)],
     events = [Log Debug ''async_step_user'' [],
               Log Debug ''Continuing with %s'' [LStr ''Airthings Wave+''],
               CallBleDeviceFromAddress ''AA:01'', CallUpdateDevice (BLEDevice ''AA:01'')]\<rparr>"
  have v: "async_discovered_service_info hass_three = [adv_wave] @ adv_mini # [adv_tern]"
    by (simp add: hass_three_def)
  have a: "address adv_mini \<notin> set (async_current_ids hass_three)"
    by (simp add: hass_three_def)
  have b: "map_of (discovered_devices ?fl1) (address adv_mini) = None"
    by (simp add: adv_mini_def)
  have c: "map_of (manufacturer_data adv_mini) MFCT_ID \<noteq> None"
    by (simp add: adv_mini_def MFCT_ID_def)
  have d: "list_ex (\<lambda>uuid. uuid \<in> set SERVICE_UUIDS) (service_uuids adv_mini)"
    by (simp add: adv_mini_def SERVICE_UUIDS_def)
  have e: "fst (get_device_data hass_three adv_mini
              (emit (Log Debug ''Continuing with %s'' [LStr (name adv_mini)]) ?fl1)) =
           Inl (raise_msg AirthingsDeviceUpdateError ''No ble_device'')"
    by (simp add: get_device_data_def hass_three_def adv_mini_def emit_def Let_def)
  have f: "is_Exception (raise_msg AirthingsDeviceUpdateError ''No ble_device'')"
    by (simp add: raise_msg_def)
  have "fst (async_step_user hass_three init_flow None) =
      Inr (Abort (if is_AirthingsDeviceUpdateError (raise_msg AirthingsDeviceUpdateError ''No ble_device'')
                  then ''cannot_connect'' else ''unknown''))"
    using d by (intro user_scan_fetch_failure_aborts [OF v scan_three_first a b c _ e f]) simp
  then show ?thesis
    using v a c d f by (simp add: is_AirthingsDeviceUpdateError_def raise_msg_def)
qed

section \<open>The unique id in both paths\<close>

text \<open>
  Claim C10, as the code has it. Both paths set the flow's unique id to the address and
  abort with \<open>already_configured\<close> when it is configured at the time of the check: the
  automatic path in its discovery step, the manual path in its selection step, after the
  scan's filtering. So the selection step creates no entry for an address configured when
  it runs, and the automatic path shows its confirmation form, and goes on to create an
  entry, only for an address that was not configured at discovery. The confirmation step
  itself checks nothing: it creates the entry from the stored title.
\<close>

theorem unique_id_checked_at_discovery_and_selection:
  "unique_id (snd (async_step_bluetooth h di fl)) = Some (address di)
   \<and> (address di \<in> set (async_current_ids h) \<longrightarrow>
        flow_manager_result (fst (async_step_bluetooth h di fl)) = Inr (Abort ''already_configured''))
   \<and> (map_of ui CONF_ADDRESS = Some addr \<longrightarrow>
        unique_id (snd (async_step_user h fl (Some ui))) = Some addr
        \<and> (addr \<in> set (async_current_ids h) \<longrightarrow>
             flow_manager_result (fst (async_step_user h fl (Some ui))) = Inr (Abort ''already_configured'')))
   \<and> (fst (async_step_bluetooth h di fl) = Inr (ShowForm step_id ph sch) \<longrightarrow>
        address di \<notin> set (async_current_ids h))
   \<and> (fst (bluetooth_path h di submitted fl) = Inr (CreateEntry t) \<longrightarrow>
        address di \<notin> set (async_current_ids h))
   \<and> (map_of ui CONF_ADDRESS = Some addr
        \<and> flow_manager_result (fst (async_step_user h fl (Some ui))) = Inr (CreateEntry t) \<longrightarrow>
        addr \<notin> set (async_current_ids h))
   \<and> (title_placeholders fl = Some [(''name'', nm)] \<longrightarrow>
        fst (async_step_bluetooth_confirm fl (Some submitted)) = Inr (CreateEntry nm))"
proof -
  have a: "address di \<in> set (async_current_ids h) \<Longrightarrow>
      flow_manager_result (fst (async_step_bluetooth h di fl)) = Inr (Abort ''already_configured'')"
    by (simp add: step_bluetooth_configured flow_manager_result_def raise_msg_def)
  have b: "map_of ui CONF_ADDRESS = Some addr \<Longrightarrow> addr \<in> set (async_current_ids h) \<Longrightarrow>
      flow_manager_result (fst (async_step_user h fl (Some ui))) = Inr (Abort ''already_configured'')"
    by (simp add: step_user_configured flow_manager_result_def raise_msg_def)
  have c: "fst (bluetooth_path h di submitted fl) = Inr (CreateEntry t) \<Longrightarrow>
      address di \<notin> set (async_current_ids h)"
    using bluetooth_path_configured [of di h submitted fl] by auto
  have d: "fst (async_step_bluetooth h di fl) = Inr (ShowForm step_id ph sch) \<Longrightarrow>
      address di \<notin> set (async_current_ids h)"
    using step_bluetooth_configured [of di h fl] by auto
  have e: "title_placeholders fl = Some [(''name'', nm)] \<Longrightarrow>
      fst (async_step_bluetooth_confirm fl (Some submitted)) = Inr (CreateEntry nm)"
    by (simp add: confirm_Some)
  show ?thesis
    using a b c d e step_bluetooth_unique_id [of h di fl] step_user_unique_id [of ui addr h fl]
    by auto
qed

lemma step_bluetooth_ok:
  "\<exists>fl1. async_step_bluetooth hass_ok adv_wave init_flow =
       (Inr (ShowForm ''bluetooth_confirm'' (Some [(''name'', ''Airthings Wave Plus (123456)'')]) None),
        fl1)
     \<and> title_placeholders fl1 = Some [(''name'', ''Airthings Wave Plus (123456)'')]"
proof -
  have a: "address adv_wave \<notin> set (async_current_ids hass_ok)"
    by (simp add: hass_ok_def)
  have b: "async_ble_device_from_address hass_ok (address adv_wave) = Some (BLEDevice ''AA:01'')"
    by (simp add: hass_ok_def adv_wave_def)
  have c: "update_device hass_ok (BLEDevice ''AA:01'') = Inr dev_wave"
    by (simp add: hass_ok_def)
  have n: "get_name \<lparr>device = dev_wave, data = AirthingsBluetoothDeviceData\<rparr> =
      ''Airthings Wave Plus (123456)''"
    by (simp add: get_name_def dev_wave_def)
  show ?thesis
    using step_bluetooth_success [OF a b c, of init_flow] by (simp add: n)
qed

lemma bluetooth_path_ok:
  "fst (bluetooth_path hass_ok adv_wave [] init_flow) = Inr (CreateEntry ''Airthings Wave Plus (123456)'')"
proof -
  obtain fl1 where s: "async_step_bluetooth hass_ok adv_wave init_flow =
      (Inr (ShowForm ''bluetooth_confirm'' (Some [(''name'', ''Airthings Wave Plus (123456)'')]) None),
       fl1)"
    and tp: "title_placeholders fl1 = Some [(''name'', ''Airthings Wave Plus (123456)'')]"
    using step_bluetooth_ok by blast
  show ?thesis
    using s confirm_Some [OF tp]
    by (simp add: bluetooth_path_def flow_manager_result_def)
qed

theorem unique_id_checked_at_discovery_and_selection_witness:
  "address adv_wave \<in> set (async_current_ids hass_configured)
   \<and> map_of [(''address'', ''AA:01'')] CONF_ADDRESS = Some ''AA:01''
   \<and> unique_id (snd (async_step_bluetooth hass_configured adv_wave init_flow)) = Some ''AA:01''
   \<and> flow_manager_result (fst (async_step_bluetooth hass_configured adv_wave init_flow))
       = Inr (Abort ''already_configured'')
   \<and> unique_id (snd (async_step_user hass_configured init_flow (Some [(''address'', ''AA:01'')])))
       = Some ''AA:01''
   \<and> flow_manager_result (fst (async_step_user hass_configured init_flow (Some [(''address'', ''AA:01'')])))
       = Inr (Abort ''already_configured'')
   \<and> fst (async_step_bluetooth hass_ok adv_wave init_flow) =
       Inr (ShowForm ''bluetooth_confirm'' (Some [(''name'', ''Airthings Wave Plus (123456)'')]) None)
   \<and> fst (bluetooth_path hass_ok adv_wave [] init_flow) = Inr (CreateEntry ''Airthings Wave Plus (123456)'')
   \<and> address adv_wave \<notin> set (async_current_ids hass_ok)"
proof -
  have a: "address adv_wave \<in> set (async_current_ids hass_configured)"
    by (simp add: adv_wave_def hass_configured_def)
  have b: "map_of [(''address'', ''AA:01'')] CONF_ADDRESS = Some ''AA:01''"
    by (simp add: CONF_ADDRESS_def)
  have c: "address adv_wave = ''AA:01''"
    by (simp add: adv_wave_def)
  have d: "fst (async_step_bluetooth hass_ok adv_wave init_flow) =
       Inr (ShowForm ''bluetooth_confirm'' (Some [(''name'', ''Airthings Wave Plus (123456)'')]) None)"
    using step_bluetooth_ok by auto
  show ?thesis
    using unique_id_checked_at_discovery_and_selection
            [where h = hass_configured and di = adv_wave and fl = init_flow
               and ui = "[(''address'', ''AA:01'')]" and addr = "''AA:01''" and submitted = "[]"
               and t = "''Airthings Wave Plus (123456)''"]
          unique_id_checked_at_discovery_and_selection
            [where h = hass_ok and di = adv_wave and fl = init_flow
               and ui = "[(''address'', ''AA:01'')]" and addr = "''AA:01''" and submitted = "[]"
               and t = "''Airthings Wave Plus (123456)''" and step_id = "''bluetooth_confirm''"
               and ph = "Some [(''name'', ''Airthings Wave Plus (123456)'')]" and sch = None]
          a b c d bluetooth_path_ok
    by simp
qed

text \<open>
  Claim C10 as stated fails for the automatic path. Discovery runs while the address is
  not configured and shows the confirmation form; the address is configured afterwards
  (the unique-id check on the same flow would now abort); the confirmation step, given
  the user's submission, creates the entry all the same.
\<close>

theorem bluetooth_confirm_creates_entry_counterexample:
  "fst (async_step_bluetooth hass_ok adv_wave init_flow) =
       Inr (ShowForm ''bluetooth_confirm'' (Some [(''name'', ''Airthings Wave Plus (123456)'')]) None)
   \<and> unique_id (snd (async_step_bluetooth hass_ok adv_wave init_flow)) = Some ''AA:01''
   \<and> ''AA:01'' \<in> set (async_current_ids hass_configured)
   \<and> abort_if_unique_id_configured hass_configured (snd (async_step_bluetooth hass_ok adv_wave init_flow))
       = Some (raise_msg AbortFlow ''already_configured'')
   \<and> flow_manager_result
        (fst (async_step_bluetooth_confirm (snd (async_step_bluetooth hass_ok adv_wave init_flow)) (Some [])))
       = Inr (CreateEntry ''Airthings Wave Plus (123456)'')"
proof -
  obtain fl1 where s: "async_step_bluetooth hass_ok adv_wave init_flow =
      (Inr (ShowForm ''bluetooth_confirm'' (Some [(''name'', ''Airthings Wave Plus (123456)'')]) None),
       fl1)"
    and tp: "title_placeholders fl1 = Some [(''name'', ''Airthings Wave Plus (123456)'')]"
    using step_bluetooth_ok by blast
  have u: "unique_id fl1 = Some ''AA:01''"
    using step_bluetooth_unique_id [of hass_ok adv_wave init_flow] s by (simp add: adv_wave_def)
  have m: "''AA:01'' \<in> set (async_current_ids hass_configured)"
    by (simp add: hass_configured_def)
  have ab: "abort_if_unique_id_configured hass_configured fl1 =
      Some (raise_msg AbortFlow ''already_configured'')"
    using u m by (simp add: abort_if_unique_id_configured_def)
  have cr: "flow_manager_result (fst (async_step_bluetooth_confirm fl1 (Some []))) =
      Inr (CreateEntry ''Airthings Wave Plus (123456)'')"
    using confirm_Some [OF tp] by (simp add: flow_manager_result_def)
  show ?thesis using s u m ab cr by simp
qed

section \<open>The cloud polling adapter\<close>

text \<open>
  Claim C8. The update method returns the SDK's mapping unchanged when the call returns;
  it raises \<open>UpdateFailed\<close> exactly when the call raises \<open>AirthingsError\<close>, and then with the
  message \<open>Unable to fetch data: \<close> followed by the text of the original error; any other
  exception of the call passes through.
\<close>

theorem update_method_translates_airthings_error:
  "(update_devices = Inr devices \<longrightarrow> update_method update_devices = Inr devices)
   \<and> (is_UpdateFailed (update_method update_devices) \<longleftrightarrow> raises_AirthingsError update_devices)
   \<and> (update_devices = Inl err \<and> exc_cls err = AirthingsError \<longrightarrow>
        update_method update_devices = Inl (UpdateFailed (''Unable to fetch data: '' @ exc_str err) err))
   \<and> (update_devices = Inl err \<and> exc_cls err \<noteq> AirthingsError \<longrightarrow>
        update_method update_devices = Inl (Propagated err))"
  by (cases update_devices) (auto simp: update_method_def)

theorem update_method_translates_airthings_error_witness:
  "raises_AirthingsError sdk_unauthorized
   \<and> is_UpdateFailed (update_method sdk_unauthorized)
   \<and> update_method sdk_unauthorized =
       Inl (UpdateFailed ''Unable to fetch data: Unauthorized''
              (PyExc AirthingsError [''Unauthorized''] ''Unauthorized''))
   \<and> update_method (Inr cloud_once) = (Inr cloud_once :: update_error + (string \<times> int cloud_device) list)
   \<and> \<not> is_UpdateFailed (update_method (Inr cloud_once :: py_exc + (string \<times> int cloud_device) list))"
proof -
  have a: "raises_AirthingsError sdk_unauthorized"
    by (simp add: sdk_unauthorized_def)
  have b: "sdk_unauthorized = Inl (PyExc AirthingsError [''Unauthorized''] ''Unauthorized'')"
    by (simp add: sdk_unauthorized_def)
  show ?thesis
    using update_method_translates_airthings_error
            [of sdk_unauthorized "[]" "PyExc AirthingsError [''Unauthorized''] ''Unauthorized''"]
          update_method_translates_airthings_error
            [of "Inr cloud_once" cloud_once "PyExc AirthingsError [''Unauthorized''] ''Unauthorized''"]
          a b
    by simp
qed

section \<open>The cloud sensor entities\<close>

lemma native_value_scan_find:
  "native_value_scan xs k =
     (case find (\<lambda>s. sensor_type s = k) xs of None \<Rightarrow> None | Some s \<Rightarrow> sensor_value s)"
  by (induction xs) auto

lemma available_scan_find:
  "available_scan xs k = (find (\<lambda>s. sensor_type s = k) xs \<noteq> None)"
  by (induction xs) auto

text \<open>
  Claim C2. For an entity whose device is in the cached mapping: when the bundle has an
  entry of the entity's type, \<open>native_value\<close> is the value of the first such entry and the
  entity is available; when it has none, \<open>native_value\<close> is \<open>None\<close> and the entity is
  unavailable.
\<close>

theorem native_value_of_matching_reading:
  assumes "map_of coordinator_data (ent_id self) = Some dev"
  shows "(case find (\<lambda>s. sensor_type s = key (entity_description self)) (sensors dev) of
            Some s \<Rightarrow> native_value coordinator_data self = Inr (sensor_value s)
                     \<and> available coordinator_data self = Inr True
          | None \<Rightarrow> native_value coordinator_data self = Inr None
                   \<and> available coordinator_data self = Inr False)
       \<and> (find (\<lambda>s. sensor_type s = key (entity_description self)) (sensors dev) = None
            \<longleftrightarrow> key (entity_description self) \<notin> sensor_type ` set (sensors dev))"
proof -
  have a: "(case find (\<lambda>s. sensor_type s = key (entity_description self)) (sensors dev) of
            Some s \<Rightarrow> native_value coordinator_data self = Inr (sensor_value s)
                     \<and> available coordinator_data self = Inr True
          | None \<Rightarrow> native_value coordinator_data self = Inr None
                   \<and> available coordinator_data self = Inr False)"
    using assms
    by (simp add: native_value_def available_def native_value_scan_find available_scan_find
        split: option.splits)
  have b: "find (\<lambda>s. sensor_type s = key (entity_description self)) (sensors dev) = None
            \<longleftrightarrow> key (entity_description self) \<notin> sensor_type ` set (sensors dev)"
    by (auto simp: find_None_iff image_iff)
  show ?thesis using a b by blast
qed

theorem native_value_of_matching_reading_witness:
  "map_of cloud_once (ent_id entity_temp) = Some dev_living_room
   \<and> map_of cloud_once (ent_id entity_mold) = Some dev_living_room
   \<and> native_value cloud_once entity_temp = Inr (Some 21)
   \<and> available cloud_once entity_temp = Inr True
   \<and> native_value cloud_once entity_mold = Inr None
   \<and> available cloud_once entity_mold = Inr False"
proof -
  have a: "map_of cloud_once (ent_id entity_temp) = Some dev_living_room"
    by (simp add: cloud_once_def entity_temp_def AirthingsHeaterEnergySensor_def dev_living_room_def)
  have b: "map_of cloud_once (ent_id entity_mold) = Some dev_living_room"
    by (simp add: cloud_once_def entity_mold_def AirthingsHeaterEnergySensor_def dev_living_room_def)
  have kt: "key (entity_description entity_temp) = ''temp''"
    by (simp add: entity_temp_def AirthingsHeaterEnergySensor_def SensorEntityDescription_def)
  have km: "key (entity_description entity_mold) = ''mold''"
    by (simp add: entity_mold_def AirthingsHeaterEnergySensor_def SensorEntityDescription_def)
  have s: "sensors dev_living_room =
      [\<lparr>sensor_type = ''temp'', sensor_value = Some 21\<rparr>,
       \<lparr>sensor_type = ''co2'', sensor_value = Some 640\<rparr>,
       \<lparr>sensor_type = ''relayDeviceType'', sensor_value = None\<rparr>]"
    by (simp add: dev_living_room_def sensor_temp_def)
  show ?thesis
    using native_value_of_matching_reading [OF a] native_value_of_matching_reading [OF b] a b
    by (simp add: kt km s)
qed

text \<open>Every description of the table carries the key it is stored under.\<close>

lemma SENSORS_key: "map_of SENSORS t = Some d \<Longrightarrow> key d = t"
  by (auto simp: SENSORS_def SensorEntityDescription_def split: if_splits)

lemma entities_for_append:
  "entities_for sn t (xs @ ys) = entities_for sn t xs @ entities_for sn t ys"
  by (simp add: entities_for_def)

lemma entities_for_one:
  "length (entities_for sn t
     (case map_of SENSORS (sensor_type s) of None \<Rightarrow> []
      | Some description \<Rightarrow> [AirthingsHeaterEnergySensor domain dev description])) =
   (if serial_number dev = sn \<and> sensor_type s = t \<and> map_of SENSORS t \<noteq> None then 1 else 0)"
proof (cases "map_of SENSORS (sensor_type s)")
  case None
  then show ?thesis by (auto simp: entities_for_def)
next
  case (Some d)
  then have "key d = sensor_type s" by (rule SENSORS_key)
  then show ?thesis
    using Some by (auto simp: entities_for_def AirthingsHeaterEnergySensor_def)
qed

lemma entities_for_sensors:
  "length (entities_for sn t
     (concat (map (\<lambda>s. case map_of SENSORS (sensor_type s) of None \<Rightarrow> []
        | Some description \<Rightarrow> [AirthingsHeaterEnergySensor domain dev description]) ss))) =
   (if map_of SENSORS t = None then 0
    else if serial_number dev = sn then length (filter (\<lambda>s. sensor_type s = t) ss)
    else 0)"
proof (induction ss)
  case Nil
  then show ?case by (simp add: entities_for_def)
next
  case (Cons s ss)
  show ?case
    using Cons.IH
    by (simp add: entities_for_append entities_for_one)
qed

lemma async_setup_entry_Cons:
  "async_setup_entry domain (x # xs) =
     concat (map (\<lambda>s. case map_of SENSORS (sensor_type s) of None \<Rightarrow> []
        | Some description \<Rightarrow> [AirthingsHeaterEnergySensor domain (snd x) description])
        (sensors (snd x)))
     @ async_setup_entry domain xs"
  by (simp add: async_setup_entry_def)

text \<open>
  The entities for a serial number and a type are as many as the readings of that type
  in the bundles of the devices with that serial number, and none when the type is not
  in the table.
\<close>

lemma entities_for_count:
  "length (entities_for sn t (async_setup_entry domain coordinator_data)) =
     (if map_of SENSORS t = None then 0 else readings_of sn t coordinator_data)"
proof (induction coordinator_data)
  case Nil
  then show ?case by (simp add: async_setup_entry_def entities_for_def readings_of_def)
next
  case (Cons x xs)
  have r: "readings_of sn t (x # xs) =
      (if serial_number (snd x) = sn
       then length (filter (\<lambda>s. sensor_type s = t) (sensors (snd x))) else 0)
      + readings_of sn t xs"
    by (simp add: readings_of_def)
  show ?case
    using Cons.IH
    by (simp add: async_setup_entry_Cons entities_for_append entities_for_sensors r)
qed

lemma count_distinct:
  "distinct (map f xs) \<Longrightarrow> x \<in> set xs \<Longrightarrow> length (filter (\<lambda>y. f y = f x) xs) = 1"
proof (induction xs)
  case Nil
  then show ?case by simp
next
  case (Cons a xs)
  show ?case
  proof (cases "a = x")
    case True
    then have "\<forall>y \<in> set xs. f y \<noteq> f x" using Cons.prems(1) by (auto simp: image_iff)
    then have "filter (\<lambda>y. f y = f x) xs = []" by (auto simp: filter_empty_conv)
    then show ?thesis using True by simp
  next
    case False
    then have "x \<in> set xs" using Cons.prems(2) by simp
    moreover have "f a \<noteq> f x" using Cons.prems(1) \<open>x \<in> set xs\<close> by (auto simp: image_iff)
    ultimately show ?thesis using Cons by simp
  qed
qed

lemma sum_distinct:
  "distinct (map f xs) \<Longrightarrow> x \<in> set xs \<Longrightarrow>
     sum_list (map (\<lambda>y. if f y = f x then g y else (0::nat)) xs) = g x"
proof (induction xs)
  case Nil
  then show ?case by simp
next
  case (Cons a xs)
  show ?case
  proof (cases "a = x")
    case True
    then have "\<forall>y \<in> set xs. f y \<noteq> f x" using Cons.prems(1) by (auto simp: image_iff)
    then have "sum_list (map (\<lambda>y. if f y = f x then g y else 0) xs) = 0"
      by (induction xs) auto
    then show ?thesis using True by simp
  next
    case False
    then have "x \<in> set xs" using Cons.prems(2) by simp
    moreover have "f a \<noteq> f x" using Cons.prems(1) \<open>x \<in> set xs\<close> by (auto simp: image_iff)
    ultimately show ?thesis using Cons by simp
  qed
qed

lemma readings_of_distinct:
  assumes "distinct (map serial_number (map snd coordinator_data))"
    and "dev \<in> set (map snd coordinator_data)"
    and "distinct (map sensor_type (sensors dev))"
    and "s \<in> set (sensors dev)"
  shows "readings_of (serial_number dev) (sensor_type s) coordinator_data = 1"
proof -
  have "readings_of (serial_number dev) (sensor_type s) coordinator_data =
      length (filter (\<lambda>s'. sensor_type s' = sensor_type s) (sensors dev))"
    unfolding readings_of_def
    using sum_distinct [OF assms(1,2),
        of "\<lambda>d. length (filter (\<lambda>s'. sensor_type s' = sensor_type s) (sensors d))"]
    by simp
  also have "\<dots> = 1" using count_distinct [OF assms(3,4)] by simp
  finally show ?thesis .
qed

text \<open>
  Claim C3, as the code has it. Setup creates one entity per reading whose type is a key
  of \<open>SENSORS\<close>: the entities for a serial number and a type are as many as the readings
  of that type in that device's bundle. For a type that is not in the table no entity is
  created. Exactly one entity is created for a device and a type of the table when the
  serial numbers of the devices and the types within the device's bundle are distinct.
\<close>

theorem setup_creates_entity_per_known_reading:
  "length (entities_for sn t (async_setup_entry domain coordinator_data)) =
     (if map_of SENSORS t = None then 0 else readings_of sn t coordinator_data)
   \<and> (map_of SENSORS t = None \<longrightarrow>
        (\<forall>e \<in> set (async_setup_entry domain coordinator_data). key (entity_description e) \<noteq> t))
   \<and> (distinct (map serial_number (map snd coordinator_data))
        \<and> dev \<in> set (map snd coordinator_data)
        \<and> distinct (map sensor_type (sensors dev))
        \<and> s \<in> set (sensors dev)
        \<and> map_of SENSORS (sensor_type s) \<noteq> None \<longrightarrow>
      length (entities_for (serial_number dev) (sensor_type s)
                (async_setup_entry domain coordinator_data)) = 1)"
proof -
  have none: "map_of SENSORS t = None \<Longrightarrow> e \<in> set (async_setup_entry domain coordinator_data) \<Longrightarrow>
      key (entity_description e) \<noteq> t" for e
  proof
    assume n: "map_of SENSORS t = None" and e: "e \<in> set (async_setup_entry domain coordinator_data)"
      and k: "key (entity_description e) = t"
    have "e \<in> set (entities_for (ent_id e) t (async_setup_entry domain coordinator_data))"
      using e k by (simp add: entities_for_def)
    then have "0 < length (entities_for (ent_id e) t (async_setup_entry domain coordinator_data))"
      by (auto simp: length_greater_0_conv)
    then show False using n by (simp add: entities_for_count)
  qed
  show ?thesis
    using none by (auto simp: entities_for_count readings_of_distinct)
qed

theorem setup_creates_entity_per_known_reading_witness:
  "distinct (map serial_number (map snd cloud_once))
   \<and> dev_living_room \<in> set (map snd cloud_once)
   \<and> distinct (map sensor_type (sensors dev_living_room))
   \<and> sensor_temp \<in> set (sensors dev_living_room)
   \<and> map_of SENSORS (sensor_type sensor_temp) \<noteq> None
   \<and> map_of SENSORS ''relayDeviceType'' = None
   \<and> length (entities_for ''2960000001'' ''temp'' (async_setup_entry ''airthings'' cloud_once)) = 1
   \<and> length (entities_for ''2960000001'' ''relayDeviceType''
               (async_setup_entry ''airthings'' cloud_once)) = 0"
proof -
  have a: "distinct (map serial_number (map snd cloud_once))"
    by (simp add: cloud_once_def)
  have b: "dev_living_room \<in> set (map snd cloud_once)"
    by (simp add: cloud_once_def)
  have c: "distinct (map sensor_type (sensors dev_living_room))"
    by (simp add: dev_living_room_def sensor_temp_def)
  have d: "sensor_temp \<in> set (sensors dev_living_room)"
    by (simp add: dev_living_room_def)
  have e: "map_of SENSORS (sensor_type sensor_temp) \<noteq> None"
    by (simp add: SENSORS_def sensor_temp_def)
  have f: "map_of SENSORS ''relayDeviceType'' = None"
    by (simp add: SENSORS_def)
  have g: "serial_number dev_living_room = ''2960000001''" "sensor_type sensor_temp = ''temp''"
    by (simp_all add: dev_living_room_def sensor_temp_def)
  show ?thesis
    using setup_creates_entity_per_known_reading
            [of "''2960000001''" "''relayDeviceType''" "''airthings''" cloud_once dev_living_room sensor_temp]
          a b c d e f g
    by simp
qed

text \<open>
  Claim C3 as stated fails: the bundle lists the type \<open>temp\<close>, a key of the table, twice,
  and setup creates two entities for that device and type.
\<close>

theorem setup_duplicate_type_counterexample:
  "map_of SENSORS ''temp'' \<noteq> None
   \<and> length (entities_for ''2960000001'' ''temp'' (async_setup_entry ''airthings'' cloud_twice)) = 2"
proof -
  have a: "map_of SENSORS ''temp'' \<noteq> None" by (simp add: SENSORS_def)
  have "readings_of ''2960000001'' ''temp'' cloud_twice = 2"
    by (simp add: readings_of_def cloud_twice_def)
  then show ?thesis using a by (simp add: entities_for_count)
qed

end
